theory Spec2Isabelle
  imports Main "HOL-Library.Sublist"
begin

section \<open>The host debugger, as far as \<^verbatim>\<open>lldb_pyutils.py\<close> uses it\<close>

text \<open>
  The script is driven by lldb. Every object it receives from lldb is modelled by the
  answers lldb gives to the calls the script makes on it; the fields carry the names of
  those calls.

  An \<^verbatim>\<open>SBValue\<close> answers \<^verbatim>\<open>GetValueAsUnsigned()\<close> (an unsigned integer),
  \<^verbatim>\<open>GetValue()\<close> (a string or \<^verbatim>\<open>None\<close>) and \<^verbatim>\<open>GetChildMemberWithName(name)\<close>
  (again an \<^verbatim>\<open>SBValue\<close>, for every name), so the type is corecursive.
\<close>

codatatype SBValue =
  SBValue (GetValueAsUnsigned: nat) (GetValue: "string option")
    (GetChildMemberWithName: "string \<Rightarrow> SBValue")

text \<open>
  An \<^verbatim>\<open>SBFrame\<close>: its function name (a string or \<^verbatim>\<open>None\<close>), its frame id, the value it
  gives for each variable path, and the value the inferior computes for each expression
  evaluated in the frame.
\<close>

record SBFrame =
  GetFunctionName :: "string option"
  GetFrameID :: nat
  GetValueForVariablePath :: "string \<Rightarrow> SBValue"
  expression_value :: "string \<Rightarrow> SBValue"

record SBThread =
  GetNumFrames :: nat
  frame_at :: "nat \<Rightarrow> SBFrame"

record SBProcess =
  GetSelectedThread :: SBThread

record SBTarget =
  GetProcess :: SBProcess

text \<open>
  An \<^verbatim>\<open>SBDebugger\<close>: its selected target and the command lines it has been given
  through \<^verbatim>\<open>HandleCommand\<close>, oldest first.
\<close>

record SBDebugger =
  GetSelectedTarget :: SBTarget
  handled :: "string list"

definition HandleCommand :: "SBDebugger \<Rightarrow> string \<Rightarrow> SBDebugger" where
  "HandleCommand debugger line = debugger\<lparr>handled := handled debugger @ [line]\<rparr>"

section \<open>The state a command runs in\<close>

text \<open>
  The module's only global variable (\<^verbatim>\<open>CMDS\<close>), the global \<^verbatim>\<open>lldb.debugger\<close>, and what
  the outside can observe of a run: the frame indices asked of the thread, the
  expressions evaluated in the inferior (with the frame they were evaluated in), and
  the lines printed, each oldest first.
\<close>

record world =
  CMDS :: "(string \<times> string) list"
  lldb_debugger :: SBDebugger
  fetched :: "nat list"
  evaluated :: "(SBFrame \<times> string) list"
  stdout :: "string list"

definition GetFrameAtIndex :: "SBThread \<Rightarrow> nat \<Rightarrow> world \<Rightarrow> SBFrame \<times> world" where
  "GetFrameAtIndex thread i w = (frame_at thread i, w\<lparr>fetched := fetched w @ [i]\<rparr>)"

definition EvaluateExpression :: "SBFrame \<Rightarrow> string \<Rightarrow> world \<Rightarrow> SBValue \<times> world" where
  "EvaluateExpression fr e w = (expression_value fr e, w\<lparr>evaluated := evaluated w @ [(fr, e)]\<rparr>)"

definition print :: "string \<Rightarrow> world \<Rightarrow> world" where
  "print line w = w\<lparr>stdout := stdout w @ [line]\<rparr>"

section \<open>Python built-ins the script uses\<close>

text \<open>\<^verbatim>\<open>s.find(c)\<close> and \<^verbatim>\<open>s.rfind(c)\<close> for a one-character \<^verbatim>\<open>c\<close>: the index of the first
  (last) occurrence, or \<open>-1\<close>.\<close>

fun find_from :: "int \<Rightarrow> string \<Rightarrow> char \<Rightarrow> int" where
  "find_from k [] c = -1"
| "find_from k (x # xs) c = (if x = c then k else find_from (k + 1) xs c)"

definition py_find :: "string \<Rightarrow> char \<Rightarrow> int" where
  "py_find s c = find_from 0 s c"

fun rfind_from :: "int \<Rightarrow> int \<Rightarrow> string \<Rightarrow> char \<Rightarrow> int" where
  "rfind_from k found [] c = found"
| "rfind_from k found (x # xs) c = rfind_from (k + 1) (if x = c then k else found) xs c"

definition py_rfind :: "string \<Rightarrow> char \<Rightarrow> int" where
  "py_rfind s c = rfind_from 0 (-1) s c"

text \<open>\<^verbatim>\<open>s[a:b]\<close>: a negative bound counts from the end, and both bounds are clamped to
  the string.\<close>

definition slice_bound :: "int \<Rightarrow> int \<Rightarrow> nat" where
  "slice_bound n k = nat (min n (if k < 0 then max 0 (k + n) else k))"

definition py_slice :: "string \<Rightarrow> int \<Rightarrow> int \<Rightarrow> string" where
  "py_slice s a b =
     (let n = int (length s); lo = slice_bound n a; hi = slice_bound n b
      in take (hi - lo) (drop lo s))"

text \<open>\<^verbatim>\<open>range(n)\<close> for an integer \<^verbatim>\<open>n\<close>: empty when \<^verbatim>\<open>n\<close> is not positive.\<close>

definition py_range :: "int \<Rightarrow> nat list" where
  "py_range n = [0..<nat n]"

text \<open>The decimal digits \<^verbatim>\<open>"{}".format\<close> writes for a non-negative integer.\<close>

definition digit :: "nat \<Rightarrow> char" where
  "digit d = ''0123456789'' ! (d mod 10)"

fun str_nat :: "nat \<Rightarrow> string" where
  "str_nat n = (if n < 10 then [digit n] else str_nat (n div 10) @ [digit (n mod 10)])"

declare str_nat.simps [simp del]

text \<open>What \<^verbatim>\<open>"{}".format\<close> writes for a string or \<^verbatim>\<open>None\<close>, and Python's truth value of
  one: \<^verbatim>\<open>None\<close> and the empty string are false.\<close>

fun str_value :: "string option \<Rightarrow> string" where
  "str_value None = ''None''"
| "str_value (Some s) = s"

fun truthy :: "string option \<Rightarrow> bool" where
  "truthy None = False"
| "truthy (Some s) = (s \<noteq> [])"

section \<open>The script\<close>

subsection \<open>\<^verbatim>\<open>PyObjectPtr\<close>\<close>

text \<open>The class wraps one \<^verbatim>\<open>SBValue\<close> (its attribute \<^verbatim>\<open>_SBValue\<close>).\<close>

datatype PyObjectPtr = PyObjectPtr (SBValue_of: SBValue)

datatype error = NullPyObjectPtr PyObjectPtr

text \<open>\<^verbatim>\<open>long\<close> is the Python 2 built-in; on the integer lldb returns it is the identity.\<close>

definition long :: "nat \<Rightarrow> nat" where
  "long n = n"

definition is_null :: "PyObjectPtr \<Rightarrow> bool" where
  "is_null self = (0 = long (GetValueAsUnsigned (SBValue_of self)))"

definition field :: "PyObjectPtr \<Rightarrow> string \<Rightarrow> error + SBValue" where
  "field self name =
     (if is_null self then Inl (NullPyObjectPtr self)
      else Inr (GetChildMemberWithName (SBValue_of self) name))"

subsection \<open>Helpers\<close>

definition Evaluate_PyObject_AsUTF8 :: "SBFrame \<Rightarrow> string \<Rightarrow> world \<Rightarrow> SBValue \<times> world" where
  "Evaluate_PyObject_AsUTF8 fr obj = EvaluateExpression fr (''PyUnicode_AsUTF8('' @ obj @ '')'')"

definition Evaluate_LineNo :: "SBFrame \<Rightarrow> string \<Rightarrow> world \<Rightarrow> SBValue \<times> world" where
  "Evaluate_LineNo fr obj = EvaluateExpression fr (''PyFrame_GetLineNumber('' @ obj @ '')'')"

definition gist_extr :: "string \<Rightarrow> string" where
  "gist_extr s = py_slice s (py_find s (CHR 0x22) + 1) (py_rfind s (CHR 0x22))"

definition is_evalframeex :: "SBFrame \<Rightarrow> bool" where
  "is_evalframeex frame = (GetFunctionName frame = Some ''PyEval_EvalFrameEx'')"

subsection \<open>\<^verbatim>\<open>py3bt\<close>\<close>

text \<open>
  The body of the loop, for the frame \<^verbatim>\<open>fr\<close> just fetched. A raised \<^verbatim>\<open>NullPyObjectPtr\<close>
  leaves the loop and the command; what was printed before stays printed.
\<close>

definition py3bt_body :: "SBFrame \<Rightarrow> world \<Rightarrow> error option \<times> world" where
  "py3bt_body fr w =
     (if is_evalframeex fr then
        let f = GetValueForVariablePath fr ''f'';
            f = PyObjectPtr f
        in case field f ''f_code'' of
             Inl e \<Rightarrow> (Some e, w)
           | Inr c \<Rightarrow>
               let f_code = PyObjectPtr c
               in case field f_code ''co_filename'' of
                    Inl e \<Rightarrow> (Some e, w)
                  | Inr fv \<Rightarrow>
                      let filename = GetValue fv
                      in case field f_code ''co_name'' of
                           Inl e \<Rightarrow> (Some e, w)
                         | Inr nv \<Rightarrow>
                             let name = GetValue nv;
                                 (lv, w1) = Evaluate_LineNo fr ''f'' w;
                                 lineno = GetValue lv
                             in (None,
                                 print (''frame #'' @ str_nat (GetFrameID fr) @ '': ''
                                          @ str_value (if truthy filename then filename else Some ''.'')
                                          @ '' - ''
                                          @ str_value (if truthy name then name else Some ''.'')
                                          @ '':''
                                          @ str_value (if truthy lineno then lineno else Some ''.''))
                                   w1)
      else (None, w))"

fun py3bt_loop :: "SBThread \<Rightarrow> nat list \<Rightarrow> world \<Rightarrow> error option \<times> world" where
  "py3bt_loop thread [] w = (None, w)"
| "py3bt_loop thread (i # ixs) w =
     (let (fr, w1) = GetFrameAtIndex thread i w
      in case py3bt_body fr w1 of
           (Some e, w2) \<Rightarrow> (Some e, w2)
         | (None, w2) \<Rightarrow> py3bt_loop thread ixs w2)"

text \<open>
  The arguments \<^verbatim>\<open>command\<close>, \<^verbatim>\<open>result\<close> and \<^verbatim>\<open>dict\<close> are of any type. \<^verbatim>\<open>thread\<close> is
  \<open>Some\<close> exactly when the caller passed an \<^verbatim>\<open>lldb.SBThread\<close>.
\<close>

definition py3bt ::
  "SBDebugger option \<Rightarrow> 'c \<Rightarrow> 'r \<Rightarrow> 'd \<Rightarrow> SBThread option \<Rightarrow> world \<Rightarrow> error option \<times> world" where
  "py3bt debugger command result dict thread w =
     (let debugger = (case debugger of None \<Rightarrow> lldb_debugger w | Some d \<Rightarrow> d);
          target = GetSelectedTarget debugger;
          thread = (case thread of None \<Rightarrow> GetSelectedThread (GetProcess target) | Some t \<Rightarrow> t);
          num_frames = int (GetNumFrames thread)
      in py3bt_loop thread (py_range (num_frames - 1)) w)"

subsection \<open>Registration\<close>

text \<open>The value the module gives \<^verbatim>\<open>CMDS\<close> when it is loaded, and the module's own name:
  that of its file, \<^verbatim>\<open>lldb_pyutils.py\<close>.\<close>

definition CMDS_initial :: "(string \<times> string) list" where
  "CMDS_initial = [(''py3-bt'', ''py3bt'')]"

definition this_module :: string where
  "this_module = ''lldb_pyutils''"

definition lldb_init_module :: "SBDebugger \<Rightarrow> 'd \<Rightarrow> world \<Rightarrow> SBDebugger" where
  "lldb_init_module debugger dict w =
     foldl (\<lambda>d cmd. HandleCommand d
              (''command script add -f lldb_utils.'' @ snd cmd @ '' '' @ fst cmd))
       debugger (CMDS w)"

section \<open>Vocabulary of the properties\<close>

text \<open>
  What \<^verbatim>\<open>py3bt\<close> reads of a frame: the variable \<^verbatim>\<open>f\<close>, its member \<^verbatim>\<open>f_code\<close>, and the
  three values the host returns for the file name, the function name and the line number.
\<close>

definition frame_f :: "SBFrame \<Rightarrow> SBValue" where
  "frame_f fr = GetValueForVariablePath fr ''f''"

definition frame_f_code :: "SBFrame \<Rightarrow> SBValue" where
  "frame_f_code fr = GetChildMemberWithName (frame_f fr) ''f_code''"

definition host_filename :: "SBFrame \<Rightarrow> string option" where
  "host_filename fr = GetValue (GetChildMemberWithName (frame_f_code fr) ''co_filename'')"

definition host_name :: "SBFrame \<Rightarrow> string option" where
  "host_name fr = GetValue (GetChildMemberWithName (frame_f_code fr) ''co_name'')"

definition host_lineno :: "SBFrame \<Rightarrow> string option" where
  "host_lineno fr = GetValue (expression_value fr ''PyFrame_GetLineNumber(f)'')"

text \<open>A frame in which one of the two pointers \<^verbatim>\<open>py3bt\<close> dereferences is null, the
  pointer that is, and the frames whose loop iteration runs to its end.\<close>

definition null_in :: "SBFrame \<Rightarrow> bool" where
  "null_in fr =
     (GetValueAsUnsigned (frame_f fr) = 0 \<or> GetValueAsUnsigned (frame_f_code fr) = 0)"

definition null_ptr :: "SBFrame \<Rightarrow> PyObjectPtr" where
  "null_ptr fr =
     PyObjectPtr (if GetValueAsUnsigned (frame_f fr) = 0 then frame_f fr else frame_f_code fr)"

definition completes :: "SBFrame \<Rightarrow> bool" where
  "completes fr = (is_evalframeex fr \<longrightarrow> \<not> null_in fr)"

text \<open>
  The line format as the specification words it, \<^verbatim>\<open>frame #<id>: <file> - <name>:<line>\<close>,
  a missing value written as a dot, and the line of a frame in that format.
\<close>

definition spec_line :: "string \<Rightarrow> string \<Rightarrow> string \<Rightarrow> string \<Rightarrow> string" where
  "spec_line ident file name line =
     ''frame #'' @ ident @ '': '' @ file @ '' - '' @ name @ '':'' @ line"

definition or_dot :: "string option \<Rightarrow> string" where
  "or_dot v = (case v of None \<Rightarrow> ''.'' | Some s \<Rightarrow> if s = [] then ''.'' else s)"

definition frame_line :: "SBFrame \<Rightarrow> string" where
  "frame_line fr =
     spec_line (str_nat (GetFrameID fr)) (or_dot (host_filename fr))
       (or_dot (host_name fr)) (or_dot (host_lineno fr))"

text \<open>
  The thread a call of \<^verbatim>\<open>py3bt\<close> works on, the indices its loop ranges over, those whose
  iteration runs to its end before any exception, and among them those of interpreter frames.
\<close>

definition target_thread :: "SBDebugger option \<Rightarrow> SBThread option \<Rightarrow> world \<Rightarrow> SBThread" where
  "target_thread debugger thread w =
     (case thread of
        Some t \<Rightarrow> t
      | None \<Rightarrow>
          GetSelectedThread (GetProcess (GetSelectedTarget
            (case debugger of None \<Rightarrow> lldb_debugger w | Some d \<Rightarrow> d))))"

definition visited :: "SBThread \<Rightarrow> nat list" where
  "visited thread = [0..<GetNumFrames thread - 1]"

definition finished :: "SBThread \<Rightarrow> nat list \<Rightarrow> nat list" where
  "finished thread ixs = takeWhile (\<lambda>i. completes (frame_at thread i)) ixs"

definition shown :: "SBThread \<Rightarrow> nat list \<Rightarrow> nat list" where
  "shown thread ixs = filter (\<lambda>i. is_evalframeex (frame_at thread i)) (finished thread ixs)"

text \<open>The lines a run from \<open>w\<close> to \<open>w'\<close> has printed.\<close>

definition printed :: "world \<Rightarrow> world \<Rightarrow> string list" where
  "printed w w' = drop (length (stdout w)) (stdout w')"

section \<open>Example host objects\<close>

text \<open>The value lldb gives for what it cannot find: no value, address 0, no members.\<close>

primcorec no_value :: SBValue where
  "no_value = SBValue 0 None (\<lambda>_. no_value)"

definition leaf :: "nat \<Rightarrow> string option \<Rightarrow> SBValue" where
  "leaf address v = SBValue address v (\<lambda>_. no_value)"

definition example_code :: SBValue where
  "example_code =
     SBValue 4096 (Some ''0x1000'')
       (\<lambda>n. if n = ''co_filename'' then leaf 8192 (Some ''a.py'')
            else if n = ''co_name'' then leaf 12288 None
            else no_value)"

definition example_f :: SBValue where
  "example_f = SBValue 256 (Some ''0x100'') (\<lambda>n. if n = ''f_code'' then example_code else no_value)"

definition eval_frame :: "nat \<Rightarrow> SBValue \<Rightarrow> SBFrame" where
  "eval_frame k f =
     \<lparr>GetFunctionName = Some ''PyEval_EvalFrameEx'', GetFrameID = k,
      GetValueForVariablePath = (\<lambda>p. if p = ''f'' then f else no_value),
      expression_value =
        (\<lambda>e. if e = ''PyFrame_GetLineNumber(f)'' then leaf 7 (Some ''7'') else no_value)\<rparr>"

definition native_frame :: "nat \<Rightarrow> SBFrame" where
  "native_frame k =
     \<lparr>GetFunctionName = Some ''main'', GetFrameID = k,
      GetValueForVariablePath = (\<lambda>p. no_value), expression_value = (\<lambda>e. no_value)\<rparr>"

text \<open>Four frames: a native one, two interpreter frames, and the outermost native one.\<close>

definition example_thread :: SBThread where
  "example_thread =
     \<lparr>GetNumFrames = 4,
      frame_at = (\<lambda>i. if i = 1 \<or> i = 2 then eval_frame i example_f else native_frame i)\<rparr>"

text \<open>Three frames, the innermost an interpreter frame whose \<^verbatim>\<open>f\<close> is null.\<close>

definition null_thread :: SBThread where
  "null_thread =
     \<lparr>GetNumFrames = 3,
      frame_at = (\<lambda>i. if i = 0 then eval_frame 0 no_value
                      else if i = 1 then eval_frame 1 example_f else native_frame i)\<rparr>"

text \<open>Two frames, both interpreter frames.\<close>

definition short_thread :: SBThread where
  "short_thread = \<lparr>GetNumFrames = 2, frame_at = (\<lambda>i. eval_frame i example_f)\<rparr>"

definition example_debugger :: SBDebugger where
  "example_debugger =
     \<lparr>GetSelectedTarget = \<lparr>GetProcess = \<lparr>GetSelectedThread = example_thread\<rparr>\<rparr>,
      handled = []\<rparr>"

definition example_world :: world where
  "example_world =
     \<lparr>CMDS = CMDS_initial, lldb_debugger = example_debugger,
      fetched = [], evaluated = [], stdout = []\<rparr>"

text \<open>A second thread with the same four frames, and a state that differs from the first
  in everything \<^verbatim>\<open>py3bt\<close> does not read.\<close>

definition other_thread :: SBThread where
  "other_thread =
     \<lparr>GetNumFrames = 4,
      frame_at = (\<lambda>i. if i < 4 then frame_at example_thread i else eval_frame i no_value)\<rparr>"

definition other_world :: world where
  "other_world =
     \<lparr>CMDS = [], lldb_debugger = example_debugger\<lparr>handled := [''bt'']\<rparr>,
      fetched = [7], evaluated = [], stdout = [''(lldb) py3-bt'']\<rparr>"

section \<open>Lemmas on the built-ins\<close>

lemma find_from_absent: "c \<notin> set s \<Longrightarrow> find_from k s c = -1"
  by (induction s arbitrary: k) auto

lemma find_from_first: "c \<notin> set a \<Longrightarrow> find_from k (a @ c # r) c = k + int (length a)"
  by (induction a arbitrary: k) auto

lemma rfind_from_absent: "c \<notin> set s \<Longrightarrow> rfind_from k found s c = found"
  by (induction s arbitrary: k found) auto

lemma rfind_from_last:
  "c \<notin> set b \<Longrightarrow> rfind_from k found (p @ c # b) c = k + int (length p)"
  by (induction p arbitrary: k found) (auto simp: rfind_from_absent)

lemma py_slice_butlast: "py_slice s 0 (-1) = butlast s"
  by (cases s rule: rev_cases) (auto simp: py_slice_def slice_bound_def Let_def)

lemma gist_extr_no_quote:
  assumes "CHR 0x22 \<notin> set s"
  shows "gist_extr s = py_slice s 0 (-1)"
  using assms
  by (simp add: gist_extr_def py_find_def py_rfind_def find_from_absent rfind_from_absent)

lemma gist_extr_two_quotes:
  assumes a: "CHR 0x22 \<notin> set a" and b: "CHR 0x22 \<notin> set b"
  shows "gist_extr (a @ [CHR 0x22] @ m @ [CHR 0x22] @ b) = m"
proof -
  let ?s = "a @ [CHR 0x22] @ m @ [CHR 0x22] @ b"
  have f: "py_find ?s (CHR 0x22) = int (length a)"
    using find_from_first [OF a, of 0] by (simp add: py_find_def)
  have "rfind_from 0 (-1) ((a @ [CHR 0x22] @ m) @ CHR 0x22 # b) (CHR 0x22)
          = 0 + int (length (a @ [CHR 0x22] @ m))"
    using b by (rule rfind_from_last)
  then have r: "py_rfind ?s (CHR 0x22) = int (length a) + 1 + int (length m)"
    by (simp add: py_rfind_def)
  have lo: "slice_bound (int (length ?s)) (int (length a) + 1) = Suc (length a)"
    by (simp add: slice_bound_def nat_add_distrib)
  have hi: "slice_bound (int (length ?s)) (int (length a) + 1 + int (length m))
              = Suc (length a) + length m"
    by (simp add: slice_bound_def nat_add_distrib)
  show ?thesis
    unfolding gist_extr_def f r py_slice_def Let_def lo hi by simp
qed

lemma gist_extr_one_quote:
  assumes a: "CHR 0x22 \<notin> set a" and b: "CHR 0x22 \<notin> set b"
  shows "gist_extr (a @ [CHR 0x22] @ b) = []"
proof -
  let ?s = "a @ [CHR 0x22] @ b"
  have f: "py_find ?s (CHR 0x22) = int (length a)"
    using find_from_first [OF a, of 0] by (simp add: py_find_def)
  have r: "py_rfind ?s (CHR 0x22) = int (length a)"
    using rfind_from_last [OF b, of 0 "-1" a] by (simp add: py_rfind_def)
  show ?thesis
    unfolding gist_extr_def f r by (simp add: py_slice_def slice_bound_def Let_def)
qed

section \<open>Lemmas on the loop of \<^verbatim>\<open>py3bt\<close>\<close>

lemma str_or_dot: "str_value (if truthy v then v else Some ''.'') = or_dot v"
  by (cases v) (auto simp: or_dot_def)

lemma py3bt_body_other: "\<not> is_evalframeex fr \<Longrightarrow> py3bt_body fr w = (None, w)"
  by (simp add: py3bt_body_def)

lemma py3bt_body_null:
  "is_evalframeex fr \<Longrightarrow> null_in fr \<Longrightarrow>
   py3bt_body fr w = (Some (NullPyObjectPtr (null_ptr fr)), w)"
  by (auto simp: py3bt_body_def null_in_def null_ptr_def field_def is_null_def long_def
      frame_f_def frame_f_code_def Let_def)

lemma py3bt_body_line:
  "is_evalframeex fr \<Longrightarrow> \<not> null_in fr \<Longrightarrow>
   py3bt_body fr w =
     (None, w\<lparr>evaluated := evaluated w @ [(fr, ''PyFrame_GetLineNumber(f)'')],
              stdout := stdout w @ [frame_line fr]\<rparr>)"
  by (simp add: py3bt_body_def null_in_def field_def is_null_def long_def
      frame_f_def frame_f_code_def Let_def Evaluate_LineNo_def EvaluateExpression_def
      print_def frame_line_def spec_line_def host_filename_def host_name_def host_lineno_def
      str_or_dot)

lemma finished_Nil: "finished thread [] = []"
  by (simp add: finished_def)

lemma finished_Cons:
  "finished thread (i # ixs) =
     (if completes (frame_at thread i) then i # finished thread ixs else [])"
  by (simp add: finished_def)

lemma py3bt_loop_step:
  "py3bt_loop thread (i # ixs) w =
     (let fr = frame_at thread i; w1 = w\<lparr>fetched := fetched w @ [i]\<rparr>
      in if \<not> is_evalframeex fr then py3bt_loop thread ixs w1
         else if null_in fr then (Some (NullPyObjectPtr (null_ptr fr)), w1)
         else py3bt_loop thread ixs
                (w1\<lparr>evaluated := evaluated w1 @ [(fr, ''PyFrame_GetLineNumber(f)'')],
                    stdout := stdout w1 @ [frame_line fr]\<rparr>))"
  by (simp add: GetFrameAtIndex_def Let_def py3bt_body_other py3bt_body_null py3bt_body_line)

lemma loop_CMDS: "CMDS (snd (py3bt_loop thread ixs w)) = CMDS w"
  by (induction ixs arbitrary: w)
     (simp_all add: py3bt_loop_step Let_def del: py3bt_loop.simps(2))

lemma loop_lldb_debugger: "lldb_debugger (snd (py3bt_loop thread ixs w)) = lldb_debugger w"
  by (induction ixs arbitrary: w)
     (simp_all add: py3bt_loop_step Let_def del: py3bt_loop.simps(2))

lemma loop_stdout:
  "stdout (snd (py3bt_loop thread ixs w)) =
     stdout w @ map (\<lambda>i. frame_line (frame_at thread i)) (shown thread ixs)"
  by (induction ixs arbitrary: w)
     (simp_all add: py3bt_loop_step Let_def shown_def finished_Nil finished_Cons completes_def
        del: py3bt_loop.simps(2))

lemma loop_evaluated:
  "evaluated (snd (py3bt_loop thread ixs w)) =
     evaluated w
       @ map (\<lambda>i. (frame_at thread i, ''PyFrame_GetLineNumber(f)'')) (shown thread ixs)"
  by (induction ixs arbitrary: w)
     (simp_all add: py3bt_loop_step Let_def shown_def finished_Nil finished_Cons completes_def
        del: py3bt_loop.simps(2))

lemma loop_fetched:
  "fetched (snd (py3bt_loop thread ixs w)) =
     fetched w @ take (Suc (length (finished thread ixs))) ixs"
  by (induction ixs arbitrary: w)
     (simp_all add: py3bt_loop_step Let_def finished_Nil finished_Cons completes_def
        del: py3bt_loop.simps(2))

lemma loop_result:
  "fst (py3bt_loop thread ixs w) =
     (case dropWhile (\<lambda>i. completes (frame_at thread i)) ixs of
        [] \<Rightarrow> None
      | i # _ \<Rightarrow> Some (NullPyObjectPtr (null_ptr (frame_at thread i))))"
  by (induction ixs arbitrary: w)
     (simp_all add: py3bt_loop_step Let_def completes_def del: py3bt_loop.simps(2))

lemma py3bt_loop_eq:
  "py3bt debugger command result dict thread w =
     py3bt_loop (target_thread debugger thread w)
       (visited (target_thread debugger thread w)) w"
  by (cases thread)
     (simp_all add: py3bt_def target_thread_def visited_def py_range_def Let_def
        nat_diff_distrib')

lemma run_stdout:
  "stdout (snd (py3bt debugger command result dict thread w)) =
     stdout w @ map (\<lambda>i. frame_line (frame_at (target_thread debugger thread w) i))
                  (shown (target_thread debugger thread w) (visited (target_thread debugger thread w)))"
  by (simp add: py3bt_loop_eq loop_stdout)

lemma run_evaluated:
  "evaluated (snd (py3bt debugger command result dict thread w)) =
     evaluated w @ map (\<lambda>i. (frame_at (target_thread debugger thread w) i, ''PyFrame_GetLineNumber(f)''))
                  (shown (target_thread debugger thread w) (visited (target_thread debugger thread w)))"
  by (simp add: py3bt_loop_eq loop_evaluated)

lemma shown_eval: "j \<in> set (shown thread ixs) \<Longrightarrow> is_evalframeex (frame_at thread j)"
  by (simp add: shown_def)

lemma shown_subset: "set (shown thread ixs) \<subseteq> set ixs"
  by (auto simp: shown_def finished_def dest: set_takeWhileD)

lemma shown_visited: "j \<in> set (shown thread (visited thread)) \<Longrightarrow> j < GetNumFrames thread - 1"
  using shown_subset [of thread "visited thread"] by (auto simp: visited_def)

lemma finished_upto:
  assumes "i < n" and "\<forall>j\<le>i. completes (frame_at thread j)"
  shows "finished thread [0..<n] = [0..<Suc i] @ finished thread [Suc i..<n]"
proof -
  have "[0..<Suc i + (n - Suc i)] = [0..<Suc i] @ [Suc i..<Suc i + (n - Suc i)]"
    by (rule upt_add_eq_append) simp
  moreover have "Suc i + (n - Suc i) = n"
    using assms(1) by simp
  ultimately have split: "[0..<n] = [0..<Suc i] @ [Suc i..<n]"
    by (simp only:)
  have "takeWhile (\<lambda>j. completes (frame_at thread j)) ([0..<Suc i] @ [Suc i..<n])
          = [0..<Suc i] @ takeWhile (\<lambda>j. completes (frame_at thread j)) [Suc i..<n]"
    by (rule takeWhile_append2) (use assms(2) in auto)
  with split show ?thesis
    unfolding finished_def by (simp only:)
qed

lemma run_fetched:
  "fetched (snd (py3bt debugger command result dict thread w)) =
     fetched w @ take (Suc (length (finished (target_thread debugger thread w)
                                       (visited (target_thread debugger thread w)))))
                   (visited (target_thread debugger thread w))"
  by (simp add: py3bt_loop_eq loop_fetched)

lemma run_result:
  "fst (py3bt debugger command result dict thread w) =
     (case dropWhile (\<lambda>i. completes (frame_at (target_thread debugger thread w) i))
             (visited (target_thread debugger thread w)) of
        [] \<Rightarrow> None
      | i # _ \<Rightarrow> Some (NullPyObjectPtr (null_ptr (frame_at (target_thread debugger thread w) i))))"
  by (simp add: py3bt_loop_eq loop_result)

lemma finished_upt: "finished thread [0..<m] = [0..<length (finished thread [0..<m])]"
proof -
  have "length (finished thread [0..<m]) \<le> m"
    using length_takeWhile_le [of "\<lambda>i. completes (frame_at thread i)" "[0..<m]"]
    by (simp add: finished_def)
  moreover have "finished thread [0..<m] = take (length (finished thread [0..<m])) [0..<m]"
    unfolding finished_def by (rule takeWhile_eq_take)
  ultimately show ?thesis
    using take_upt [of 0 "length (finished thread [0..<m])" m] by simp
qed

lemma prefix_upt: "a \<le> b \<Longrightarrow> prefix [0..<a] [0..<b]"
  using take_is_prefix [of a "[0..<b]"] take_upt [of 0 a b] by simp

lemma example_target: "target_thread None None example_world = example_thread"
  by (simp add: target_thread_def example_world_def example_debugger_def)

lemma loop_cong:
  assumes "\<forall>i\<in>set ixs. frame_at t1 i = frame_at t2 i"
  shows "fst (py3bt_loop t1 ixs w1) = fst (py3bt_loop t2 ixs w2)
         \<and> map (\<lambda>i. frame_line (frame_at t1 i)) (shown t1 ixs)
             = map (\<lambda>i. frame_line (frame_at t2 i)) (shown t2 ixs)"
  using assms
  by (induction ixs arbitrary: w1 w2)
     (simp_all add: py3bt_loop_step Let_def shown_def finished_Nil finished_Cons completes_def
        del: py3bt_loop.simps(2))

lemma or_dot_truthy: "if truthy v then v = Some (or_dot v) else or_dot v = ''.''"
  by (cases v) (auto simp: or_dot_def)

lemma finished_length_le: "length (finished thread [0..<n]) \<le> n"
  using length_takeWhile_le [of "\<lambda>i. completes (frame_at thread i)" "[0..<n]"]
  by (simp add: finished_def)

lemma finished_all:
  assumes "j < length (finished thread [0..<n])"
  shows "completes (frame_at thread j)"
proof -
  from assms have "j \<in> set [0..<length (finished thread [0..<n])]"
    by simp
  then have "j \<in> set (finished thread [0..<n])"
    by (subst finished_upt)
  then show ?thesis
    unfolding finished_def by (rule set_takeWhileD [THEN conjunct2])
qed

lemma finished_stops:
  assumes "length (finished thread [0..<n]) < n"
  shows "\<not> completes (frame_at thread (length (finished thread [0..<n])))"
proof -
  let ?P = "\<lambda>i. completes (frame_at thread i)"
  from assms have l: "length (takeWhile ?P [0..<n]) < length [0..<n]"
    by (simp add: finished_def)
  then have "\<not> ?P ([0..<n] ! length (takeWhile ?P [0..<n]))"
    by (rule nth_length_takeWhile)
  moreover have "[0..<n] ! length (takeWhile ?P [0..<n]) = length (takeWhile ?P [0..<n])"
    using l by simp
  ultimately show ?thesis
    by (simp add: finished_def)
qed

lemma loop_result_None:
  "fst (py3bt_loop thread [0..<n] w) = None \<longleftrightarrow> length (finished thread [0..<n]) = n"
proof -
  let ?P = "\<lambda>i. completes (frame_at thread i)"
  have "fst (py3bt_loop thread [0..<n] w) = None \<longleftrightarrow> dropWhile ?P [0..<n] = []"
    by (cases "dropWhile ?P [0..<n]") (simp_all add: loop_result del: dropWhile_eq_Nil_conv)
  also have "\<dots> \<longleftrightarrow> takeWhile ?P [0..<n] = [0..<n]"
    by (simp only: dropWhile_eq_Nil_conv takeWhile_eq_all_conv)
  also have "\<dots> \<longleftrightarrow> length (takeWhile ?P [0..<n]) = n"
  proof
    assume "takeWhile ?P [0..<n] = [0..<n]"
    then have "length (takeWhile ?P [0..<n]) = length [0..<n]"
      by (simp only:)
    then show "length (takeWhile ?P [0..<n]) = n"
      by simp
  next
    assume "length (takeWhile ?P [0..<n]) = n"
    then have "take (length (takeWhile ?P [0..<n])) [0..<n] = [0..<n]"
      by simp
    then show "takeWhile ?P [0..<n] = [0..<n]"
      by (simp only: takeWhile_eq_take [symmetric])
  qed
  finally show ?thesis
    by (simp add: finished_def)
qed

lemma take_upt_min: "take a [0..<b] = [0..<min a b]"
  by (cases "a \<le> b") (simp_all add: min_def)

lemmas example_defs =
  example_world_def example_debugger_def example_thread_def null_thread_def short_thread_def
  eval_frame_def native_frame_def example_f_def example_code_def leaf_def

lemmas run_defs =
  py3bt_def py_range_def Let_def upt_rec GetFrameAtIndex_def py3bt_body_def
  is_evalframeex_def field_def is_null_def long_def Evaluate_LineNo_def
  EvaluateExpression_def print_def str_nat.simps digit_def

section \<open>The properties\<close>

text \<open>
  C1, as the code has it. Take a frame of the target thread that is not the last one, whose
  function name is \<^verbatim>\<open>PyEval_EvalFrameEx\<close>, and suppose that in no interpreter frame up to it
  the pointer \<^verbatim>\<open>f\<close> or its member \<^verbatim>\<open>f_code\<close> is null. Then \<^verbatim>\<open>py3bt\<close> prints, after the
  lines of the interpreter frames before it, one line for that frame, in the format
  \<^verbatim>\<open>frame #<id>: <file> - <name>:<line>\<close>, where each of file, name and line is the
  value the host returned, or a dot when that value is false.
\<close>

theorem py3bt_line_for_eval_frame:
  assumes "thr = target_thread debugger thread w"
    and "i < GetNumFrames thr - 1"
    and "is_evalframeex (frame_at thr i)"
    and "\<forall>j\<le>i. is_evalframeex (frame_at thr j) \<longrightarrow>
           GetValueAsUnsigned (frame_f (frame_at thr j)) \<noteq> 0
           \<and> GetValueAsUnsigned (frame_f_code (frame_at thr j)) \<noteq> 0"
  shows "(\<exists>rest. stdout (snd (py3bt debugger command result dict thread w)) =
            stdout w
              @ map (\<lambda>j. frame_line (frame_at thr j))
                  (filter (\<lambda>j. is_evalframeex (frame_at thr j)) [0..<i])
              @ frame_line (frame_at thr i) # rest)
         \<and> frame_line (frame_at thr i) =
             ''frame #'' @ str_nat (GetFrameID (frame_at thr i)) @ '': ''
               @ or_dot (host_filename (frame_at thr i)) @ '' - ''
               @ or_dot (host_name (frame_at thr i)) @ '':''
               @ or_dot (host_lineno (frame_at thr i))"
proof
  have c: "\<forall>j\<le>i. completes (frame_at thr j)"
    using assms(4) by (simp add: completes_def null_in_def)
  have "finished thr (visited thr) = [0..<Suc i] @ finished thr [Suc i..<GetNumFrames thr - 1]"
    unfolding visited_def using assms(2) c by (rule finished_upto)
  then have "shown thr (visited thr) =
      filter (\<lambda>j. is_evalframeex (frame_at thr j)) [0..<i] @ i
        # filter (\<lambda>j. is_evalframeex (frame_at thr j)) (finished thr [Suc i..<GetNumFrames thr - 1])"
    using assms(3) by (simp add: shown_def)
  then show "\<exists>rest. stdout (snd (py3bt debugger command result dict thread w)) =
            stdout w
              @ map (\<lambda>j. frame_line (frame_at thr j))
                  (filter (\<lambda>j. is_evalframeex (frame_at thr j)) [0..<i])
              @ frame_line (frame_at thr i) # rest"
    by (simp add: run_stdout assms(1) [symmetric])
next
  show "frame_line (frame_at thr i) =
             ''frame #'' @ str_nat (GetFrameID (frame_at thr i)) @ '': ''
               @ or_dot (host_filename (frame_at thr i)) @ '' - ''
               @ or_dot (host_name (frame_at thr i)) @ '':''
               @ or_dot (host_lineno (frame_at thr i))"
    by (simp add: frame_line_def spec_line_def)
qed

theorem py3bt_line_for_eval_frame_witness:
  "(2::nat) < GetNumFrames example_thread - 1
   \<and> is_evalframeex (frame_at example_thread 2)
   \<and> (\<exists>rest. stdout (snd (py3bt None () () () None example_world)) =
          [''frame #1: a.py - .:7'', ''frame #2: a.py - .:7''] @ rest)"
proof -
  have t: "example_thread = target_thread None None example_world"
    by (simp add: target_thread_def example_world_def example_debugger_def)
  have n: "2 < GetNumFrames example_thread - 1"
    by (simp add: example_thread_def)
  have e: "is_evalframeex (frame_at example_thread 2)"
    by (simp add: is_evalframeex_def example_defs)
  have p: "\<forall>j\<le>2. is_evalframeex (frame_at example_thread j) \<longrightarrow>
           GetValueAsUnsigned (frame_f (frame_at example_thread j)) \<noteq> 0
           \<and> GetValueAsUnsigned (frame_f_code (frame_at example_thread j)) \<noteq> 0"
    by (simp add: is_evalframeex_def frame_f_def frame_f_code_def example_defs)
  have l: "map (\<lambda>j. frame_line (frame_at example_thread j))
             (filter (\<lambda>j. is_evalframeex (frame_at example_thread j)) [0..<2])
           = [''frame #1: a.py - .:7'']"
    by (simp add: upt_rec is_evalframeex_def frame_line_def spec_line_def or_dot_def
        host_filename_def host_name_def host_lineno_def frame_f_def frame_f_code_def
        str_nat.simps digit_def example_defs)
  have l2: "frame_line (frame_at example_thread 2) = ''frame #2: a.py - .:7''"
    by (simp add: frame_line_def spec_line_def or_dot_def
        host_filename_def host_name_def host_lineno_def frame_f_def frame_f_code_def
        str_nat.simps digit_def example_defs)
  have s: "stdout example_world = []"
    by (simp add: example_world_def)
  from py3bt_line_for_eval_frame [OF t n e p, of "()" "()" "()", THEN conjunct1] n e
  show ?thesis
    unfolding l l2 s by simp
qed

text \<open>
  C1 as stated fails where the variable \<^verbatim>\<open>f\<close> of an interpreter frame is null:
  \<^verbatim>\<open>field\<close> raises \<^verbatim>\<open>NullPyObjectPtr\<close>, the command ends, and neither that frame nor any
  later one gets a line.
\<close>

theorem py3bt_null_frame_counterexample:
  "0 < GetNumFrames null_thread - 1
   \<and> is_evalframeex (frame_at null_thread 0)
   \<and> py3bt None () () () (Some null_thread) example_world
       = (Some (NullPyObjectPtr (PyObjectPtr no_value)), example_world\<lparr>fetched := [0]\<rparr>)
   \<and> stdout (snd (py3bt None () () () (Some null_thread) example_world)) = []"
  by (simp add: run_defs example_defs)

text \<open>
  The loop ranges over \<^verbatim>\<open>range(num_frames - 1)\<close>, so the outermost frame of the thread is
  never fetched, whatever its function name.
\<close>

lemma py3bt_last_frame_unvisited:
  "is_evalframeex (frame_at short_thread 1)
   \<and> fetched (snd (py3bt None () () () (Some short_thread) example_world)) = [0]
   \<and> stdout (snd (py3bt None () () () (Some short_thread) example_world))
       = [''frame #0: a.py - .:7'']"
  by (simp add: run_defs example_defs)

text \<open>
  C2. \<^verbatim>\<open>__lldb_init_module\<close> gives the debugger one \<^verbatim>\<open>command script add\<close> line for each
  entry of \<^verbatim>\<open>CMDS\<close>, which is the one entry \<^verbatim>\<open>py3-bt\<close>. The function it names there is
  \<^verbatim>\<open>lldb_utils.py3bt\<close>, of a module \<^verbatim>\<open>lldb_utils\<close>; the module that defines \<^verbatim>\<open>py3bt\<close>
  is \<^verbatim>\<open>lldb_pyutils\<close>, so the command is not bound to this module's callback.
\<close>

theorem lldb_init_module_names_other_module:
  "CMDS example_world = [(''py3-bt'', ''py3bt'')]
   \<and> lldb_init_module example_debugger () example_world
       = example_debugger\<lparr>handled := [''command script add -f lldb_utils.py3bt py3-bt'']\<rparr>
   \<and> ''lldb_utils.py3bt'' \<noteq> this_module @ ''.py3bt''"
  by (simp add: lldb_init_module_def example_world_def example_debugger_def CMDS_initial_def
      HandleCommand_def this_module_def)

text \<open>
  C3. \<^verbatim>\<open>py3bt\<close> prints and evaluates for interpreter frames only: the lines printed and the
  expressions evaluated in the inferior are one each per element of a list of indices of
  frames named \<^verbatim>\<open>PyEval_EvalFrameEx\<close>; no expression is evaluated in a frame of another
  name, and the loop body leaves the state as it is for such a frame.
\<close>

theorem py3bt_only_eval_frames:
  assumes "thr = target_thread debugger thread w"
    and "w' = snd (py3bt debugger command result dict thread w)"
  shows "(\<exists>js. (\<forall>j\<in>set js. j < GetNumFrames thr \<and> is_evalframeex (frame_at thr j))
            \<and> stdout w' = stdout w @ map (\<lambda>j. frame_line (frame_at thr j)) js
            \<and> evaluated w' =
                evaluated w @ map (\<lambda>j. (frame_at thr j, ''PyFrame_GetLineNumber(f)'')) js)
         \<and> (\<forall>fr e. \<not> is_evalframeex fr \<longrightarrow>
               (fr, e) \<notin> set (drop (length (evaluated w)) (evaluated w')))
         \<and> (\<forall>fr v. \<not> is_evalframeex fr \<longrightarrow> py3bt_body fr v = (None, v))"
proof (intro conjI)
  let ?js = "shown thr (visited thr)"
  have "\<forall>j\<in>set ?js. j < GetNumFrames thr \<and> is_evalframeex (frame_at thr j)"
  proof
    fix j
    assume j: "j \<in> set ?js"
    then have "j < GetNumFrames thr - 1"
      by (rule shown_visited)
    then have "j < GetNumFrames thr"
      by simp
    moreover from j have "is_evalframeex (frame_at thr j)"
      by (rule shown_eval)
    ultimately show "j < GetNumFrames thr \<and> is_evalframeex (frame_at thr j)"
      by simp
  qed
  moreover have "stdout w' = stdout w @ map (\<lambda>j. frame_line (frame_at thr j)) ?js"
    by (simp add: assms run_stdout)
  moreover have ev: "evaluated w' =
      evaluated w @ map (\<lambda>j. (frame_at thr j, ''PyFrame_GetLineNumber(f)'')) ?js"
    by (simp add: assms run_evaluated)
  ultimately show "\<exists>js. (\<forall>j\<in>set js. j < GetNumFrames thr \<and> is_evalframeex (frame_at thr j))
            \<and> stdout w' = stdout w @ map (\<lambda>j. frame_line (frame_at thr j)) js
            \<and> evaluated w' =
                evaluated w @ map (\<lambda>j. (frame_at thr j, ''PyFrame_GetLineNumber(f)'')) js"
    by blast
  show "\<forall>fr e. \<not> is_evalframeex fr \<longrightarrow>
          (fr, e) \<notin> set (drop (length (evaluated w)) (evaluated w'))"
    using shown_eval [of _ thr "visited thr"] by (auto simp: ev)
  show "\<forall>fr v. \<not> is_evalframeex fr \<longrightarrow> py3bt_body fr v = (None, v)"
    by (simp add: py3bt_body_other)
qed

theorem py3bt_only_eval_frames_witness:
  "\<not> is_evalframeex (frame_at example_thread 0)
   \<and> py3bt_body (frame_at example_thread 0) example_world = (None, example_world)
   \<and> (\<forall>e. (frame_at example_thread 0, e) \<notin>
          set (drop (length (evaluated example_world))
                 (evaluated (snd (py3bt None () () () None example_world)))))"
proof -
  have h: "\<not> is_evalframeex (frame_at example_thread 0)"
    by (simp add: is_evalframeex_def example_defs)
  note t = py3bt_only_eval_frames [OF refl refl, where debugger = None and thread = None
      and w = example_world and command = "()" and result = "()" and dict = "()"]
  from t h show ?thesis
    by blast
qed

text \<open>
  C4. The two evaluation helpers hand their work to the host: each is the single host call
  \<^verbatim>\<open>fr.EvaluateExpression\<close> on \<^verbatim>\<open>PyUnicode_AsUTF8(obj)\<close>, respectively
  \<^verbatim>\<open>PyFrame_GetLineNumber(obj)\<close>; its result is the host's result, and that one evaluation
  is all it does.
\<close>

theorem Evaluate_helpers_delegate:
  "Evaluate_PyObject_AsUTF8 fr obj w = EvaluateExpression fr (''PyUnicode_AsUTF8('' @ obj @ '')'') w
   \<and> Evaluate_LineNo fr obj w = EvaluateExpression fr (''PyFrame_GetLineNumber('' @ obj @ '')'') w
   \<and> fst (Evaluate_PyObject_AsUTF8 fr obj w) = expression_value fr (''PyUnicode_AsUTF8('' @ obj @ '')'')
   \<and> fst (Evaluate_LineNo fr obj w) = expression_value fr (''PyFrame_GetLineNumber('' @ obj @ '')'')
   \<and> snd (Evaluate_PyObject_AsUTF8 fr obj w)
       = w\<lparr>evaluated := evaluated w @ [(fr, ''PyUnicode_AsUTF8('' @ obj @ '')'')]\<rparr>
   \<and> snd (Evaluate_LineNo fr obj w)
       = w\<lparr>evaluated := evaluated w @ [(fr, ''PyFrame_GetLineNumber('' @ obj @ '')'')]\<rparr>"
  by (simp add: Evaluate_PyObject_AsUTF8_def Evaluate_LineNo_def EvaluateExpression_def)

text \<open>
  C5. Let \<open>n\<close> be the number of frames less one and \<open>m\<close> the number of loop iterations
  that run to their end: all \<open>n\<close> when no \<^verbatim>\<open>NullPyObjectPtr\<close> is raised, otherwise the
  index of the first interpreter frame with a null pointer. \<^verbatim>\<open>py3bt\<close> fetches exactly the
  frame indices \<open>0, 1, \<dots>\<close> up to and including \<open>m\<close> or up to \<open>n - 1\<close>, each once and in
  increasing order, starting with the innermost frame \<open>0\<close>; the lines it prints are exactly
  those of the interpreter frames among the indices \<open>0, \<dots>, m - 1\<close>, in that same order.
\<close>

theorem py3bt_visits_in_order:
  assumes "thr = target_thread debugger thread w"
    and "w' = snd (py3bt debugger command result dict thread w)"
    and "n = GetNumFrames thr - 1"
  shows "\<exists>m. m \<le> n
           \<and> (\<forall>j<m. completes (frame_at thr j))
           \<and> (m < n \<longrightarrow> \<not> completes (frame_at thr m))
           \<and> (fst (py3bt debugger command result dict thread w) = None \<longleftrightarrow> m = n)
           \<and> fetched w' = fetched w @ [0..<min (Suc m) n]
           \<and> (0 < n \<longrightarrow> fetched w' = fetched w @ 0 # [1..<min (Suc m) n])
           \<and> sorted_wrt (<) [0..<min (Suc m) n] \<and> distinct [0..<min (Suc m) n]
           \<and> stdout w' =
               stdout w @ map (\<lambda>j. frame_line (frame_at thr j))
                            (filter (\<lambda>j. is_evalframeex (frame_at thr j)) [0..<m])
           \<and> subseq (filter (\<lambda>j. is_evalframeex (frame_at thr j)) [0..<m])
                [0..<min (Suc m) n]
           \<and> sorted_wrt (<) (filter (\<lambda>j. is_evalframeex (frame_at thr j)) [0..<m])"
proof -
  let ?fin = "finished thr [0..<n]"
  let ?m = "length ?fin"
  let ?k = "min (Suc ?m) n"
  let ?js = "filter (\<lambda>j. is_evalframeex (frame_at thr j)) [0..<?m]"
  have fin: "?fin = [0..<?m]"
    by (rule finished_upt)
  have le: "?m \<le> n"
    by (rule finished_length_le)
  have al: "\<forall>j<?m. completes (frame_at thr j)"
    using finished_all [of _ thr n] by blast
  have st: "?m < n \<longrightarrow> \<not> completes (frame_at thr ?m)"
    using finished_stops [of thr n] by blast
  have v: "visited thr = [0..<n]"
    by (simp add: visited_def assms(3))
  have res: "fst (py3bt debugger command result dict thread w) = None \<longleftrightarrow> ?m = n"
    by (simp only: py3bt_loop_eq assms(1) [symmetric] v loop_result_None)
  have "fetched w' = fetched w @ take (Suc ?m) [0..<n]"
    by (simp only: assms(2) run_fetched assms(1) [symmetric] v)
  then have f: "fetched w' = fetched w @ [0..<?k]"
    by (simp only: take_upt_min)
  have f0: "0 < n \<longrightarrow> fetched w' = fetched w @ 0 # [1..<?k]"
  proof
    assume "0 < n"
    then have "0 < ?k"
      by simp
    then have "[0..<?k] = 0 # [1..<?k]"
      by (simp add: upt_conv_Cons)
    with f show "fetched w' = fetched w @ 0 # [1..<?k]"
      by (simp only:)
  qed
  have sh: "shown thr (visited thr) = ?js"
    unfolding shown_def v by (subst fin) (rule refl)
  have out: "stdout w' = stdout w @ map (\<lambda>j. frame_line (frame_at thr j)) ?js"
    by (simp only: assms(1,2) run_stdout sh [unfolded assms(1)])
  have "?m \<le> ?k"
    using le by simp
  then have "prefix [0..<?m] [0..<?k]"
    by (rule prefix_upt)
  then have "subseq [0..<?m] [0..<?k]"
    by (rule prefix_imp_subseq)
  moreover have "subseq ?js [0..<?m]"
    by (rule subseq_filter_left)
  ultimately have sub: "subseq ?js [0..<?k]"
    by (rule subseq_order.order_trans [rotated])
  have srt: "sorted_wrt (<) ?js"
    by (rule sorted_wrt_filter) (rule sorted_wrt_upt)
  have "?m \<le> n
           \<and> (\<forall>j<?m. completes (frame_at thr j))
           \<and> (?m < n \<longrightarrow> \<not> completes (frame_at thr ?m))
           \<and> (fst (py3bt debugger command result dict thread w) = None \<longleftrightarrow> ?m = n)
           \<and> fetched w' = fetched w @ [0..<?k]
           \<and> (0 < n \<longrightarrow> fetched w' = fetched w @ 0 # [1..<?k])
           \<and> sorted_wrt (<) [0..<?k] \<and> distinct [0..<?k]
           \<and> stdout w' = stdout w @ map (\<lambda>j. frame_line (frame_at thr j)) ?js
           \<and> subseq ?js [0..<?k]
           \<and> sorted_wrt (<) ?js"
    using le al st res f f0 out sub srt by (intro conjI) simp_all
  then show ?thesis
    by (rule exI)
qed

theorem py3bt_visits_in_order_witness:
  "fetched (snd (py3bt None () () () None example_world)) = [0, 1, 2]
   \<and> stdout (snd (py3bt None () () () None example_world))
       = [''frame #1: a.py - .:7'', ''frame #2: a.py - .:7'']
   \<and> fst (py3bt None () () () None example_world) = None"
proof -
  let ?w' = "snd (py3bt None () () () None example_world)"
  note t = py3bt_visits_in_order [OF refl refl refl, where debugger = None and thread = None
      and w = example_world and command = "()" and result = "()" and dict = "()"]
  have n: "GetNumFrames example_thread - 1 = 3"
    by (simp add: example_thread_def)
  have c: "completes (frame_at example_thread j)" for j
    by (simp add: completes_def null_in_def is_evalframeex_def frame_f_def frame_f_code_def
        example_defs)
  have e: "fetched example_world = []" "stdout example_world = []"
    by (simp_all add: example_world_def)
  have l: "map (\<lambda>j. frame_line (frame_at example_thread j))
             (filter (\<lambda>j. is_evalframeex (frame_at example_thread j)) [0..<3])
           = [''frame #1: a.py - .:7'', ''frame #2: a.py - .:7'']"
    by (simp add: upt_rec is_evalframeex_def frame_line_def spec_line_def or_dot_def
        host_filename_def host_name_def host_lineno_def frame_f_def frame_f_code_def
        str_nat.simps digit_def example_defs)
  have u: "[0..<min (Suc 3) 3] = [0, 1, 2]"
    by (simp add: upt_rec)
  from t [unfolded example_target n] show ?thesis
  proof (elim exE conjE)
    fix m
    assume le: "m \<le> 3"
      and st: "m < 3 \<longrightarrow> \<not> completes (frame_at example_thread m)"
      and res: "(fst (py3bt None () () () None example_world) = None) = (m = 3)"
      and f: "fetched ?w' = fetched example_world @ [0..<min (Suc m) 3]"
      and out: "stdout ?w' =
        stdout example_world @ map (\<lambda>j. frame_line (frame_at example_thread j))
          (filter (\<lambda>j. is_evalframeex (frame_at example_thread j)) [0..<m])"
    from le st c have m: "m = 3"
      by (cases "m < 3") simp_all
    from f have "fetched ?w' = [0, 1, 2]"
      unfolding m e u by simp
    moreover from out have "stdout ?w' = [''frame #1: a.py - .:7'', ''frame #2: a.py - .:7'']"
      unfolding m e l by simp
    moreover from res m have "fst (py3bt None () () () None example_world) = None"
      by simp
    ultimately show ?thesis
      by (intro conjI)
  qed
qed

text \<open>
  C6. A call of \<^verbatim>\<open>py3bt\<close> leaves \<^verbatim>\<open>CMDS\<close> and the debugger, with its selected target, process
  and thread, as they were; it only adds lines to the output. Nothing is kept from one call
  to the next: a second call in the state the first one left ends the same way and prints the
  same lines again. (The fields \<open>fetched\<close> and \<open>evaluated\<close> record what a run asked of
  the host; they are no state of the script or of the debugger.)
\<close>

theorem py3bt_changes_only_output:
  "CMDS (snd (py3bt debugger command result dict thread w)) = CMDS w
   \<and> lldb_debugger (snd (py3bt debugger command result dict thread w)) = lldb_debugger w
   \<and> prefix (stdout w) (stdout (snd (py3bt debugger command result dict thread w)))
   \<and> fst (py3bt debugger command result dict thread
            (snd (py3bt debugger command result dict thread w)))
       = fst (py3bt debugger command result dict thread w)
   \<and> printed (snd (py3bt debugger command result dict thread w))
         (snd (py3bt debugger command result dict thread
                 (snd (py3bt debugger command result dict thread w))))
       = printed w (snd (py3bt debugger command result dict thread w))"
proof -
  let ?w' = "snd (py3bt debugger command result dict thread w)"
  have d: "lldb_debugger ?w' = lldb_debugger w"
    by (simp add: py3bt_loop_eq loop_lldb_debugger)
  then have t: "target_thread debugger thread ?w' = target_thread debugger thread w"
    by (cases thread; cases debugger) (simp_all add: target_thread_def)
  have c: "CMDS ?w' = CMDS w"
    by (simp add: py3bt_loop_eq loop_CMDS)
  have p: "prefix (stdout w) (stdout ?w')"
    by (simp add: run_stdout)
  have r: "fst (py3bt debugger command result dict thread ?w')
             = fst (py3bt debugger command result dict thread w)"
    by (simp only: run_result t)
  have "printed ?w' (snd (py3bt debugger command result dict thread ?w')) = printed w ?w'"
    unfolding printed_def by (simp only: run_stdout [of _ _ _ _ _ ?w'] t) (simp add: run_stdout)
  with c d p r show ?thesis
    by simp
qed

text \<open>
  C7. Two calls of \<^verbatim>\<open>py3bt\<close> whose target threads have the same number of frames and the
  same frames (function name, frame id, variable values, expression values) print the same
  lines and end the same way, whatever the other arguments and the rest of the state are.
\<close>

theorem py3bt_deterministic:
  assumes "thr = target_thread debugger thread w"
    and "thr' = target_thread debugger' thread' w'"
    and "GetNumFrames thr = GetNumFrames thr'"
    and "\<forall>i<GetNumFrames thr. frame_at thr i = frame_at thr' i"
  shows "printed w (snd (py3bt debugger command result dict thread w))
           = printed w' (snd (py3bt debugger' command' result' dict' thread' w'))
         \<and> fst (py3bt debugger command result dict thread w)
           = fst (py3bt debugger' command' result' dict' thread' w')"
proof -
  have v: "visited thr = visited thr'"
    by (simp add: visited_def assms(3))
  have "\<forall>i\<in>set (visited thr). frame_at thr i = frame_at thr' i"
    using assms(4) by (simp add: visited_def)
  then have "fst (py3bt_loop thr (visited thr) w) = fst (py3bt_loop thr' (visited thr) w')
         \<and> map (\<lambda>i. frame_line (frame_at thr i)) (shown thr (visited thr))
             = map (\<lambda>i. frame_line (frame_at thr' i)) (shown thr' (visited thr))"
    by (rule loop_cong)
  then show ?thesis
    by (simp add: printed_def py3bt_loop_eq loop_stdout assms(1,2) [symmetric] v [symmetric])
qed

theorem py3bt_deterministic_witness:
  "GetNumFrames example_thread = GetNumFrames other_thread
   \<and> frame_at example_thread 4 \<noteq> frame_at other_thread 4
   \<and> printed example_world (snd (py3bt None () () () None example_world))
       = [''frame #1: a.py - .:7'', ''frame #2: a.py - .:7'']
   \<and> printed example_world (snd (py3bt None () () () None example_world))
       = printed other_world
           (snd (py3bt (Some example_debugger) ''py3-bt'' True (0::nat) (Some other_thread) other_world))
   \<and> fst (py3bt None () () () None example_world)
       = fst (py3bt (Some example_debugger) ''py3-bt'' True (0::nat) (Some other_thread) other_world)"
proof -
  have t1: "example_thread = target_thread None None example_world"
    by (simp add: example_target)
  have t2: "other_thread = target_thread (Some example_debugger) (Some other_thread) other_world"
    by (simp add: target_thread_def)
  have n: "GetNumFrames example_thread = GetNumFrames other_thread"
    by (simp add: example_thread_def other_thread_def)
  have f: "\<forall>i<GetNumFrames example_thread. frame_at example_thread i = frame_at other_thread i"
    by (simp add: example_thread_def other_thread_def)
  note t = py3bt_deterministic [OF t1 t2 n f, where command = "()" and result = "()"
      and dict = "()" and command' = "''py3-bt''" and result' = True and dict' = "0::nat"]
  have g: "frame_at example_thread 4 \<noteq> frame_at other_thread 4"
    by (simp add: example_thread_def other_thread_def eval_frame_def native_frame_def)
  have p: "printed example_world (snd (py3bt None () () () None example_world))
             = [''frame #1: a.py - .:7'', ''frame #2: a.py - .:7'']"
    by (simp add: printed_def run_defs example_defs)
  from t n g p show ?thesis
    by blast
qed

text \<open>
  C8. For every \<^verbatim>\<open>PyObjectPtr\<close> \<open>p\<close> and field name, \<^verbatim>\<open>p.field(name)\<close> raises
  \<^verbatim>\<open>NullPyObjectPtr\<close> exactly when the unsigned value of the wrapped \<^verbatim>\<open>SBValue\<close> is 0,
  which is when \<^verbatim>\<open>p.is_null()\<close> holds; otherwise it returns
  \<^verbatim>\<open>p._SBValue.GetChildMemberWithName(name)\<close>.
\<close>

theorem field_raises_iff_null:
  "(is_null p \<longleftrightarrow> GetValueAsUnsigned (SBValue_of p) = 0)
   \<and> ((\<exists>e. field p name = Inl e) \<longleftrightarrow> GetValueAsUnsigned (SBValue_of p) = 0)
   \<and> (GetValueAsUnsigned (SBValue_of p) = 0 \<longrightarrow> field p name = Inl (NullPyObjectPtr p))
   \<and> (GetValueAsUnsigned (SBValue_of p) \<noteq> 0 \<longrightarrow>
        field p name = Inr (GetChildMemberWithName (SBValue_of p) name))"
  by (auto simp: field_def is_null_def long_def)

theorem field_raises_iff_null_witness:
  "is_null (PyObjectPtr no_value)
   \<and> field (PyObjectPtr no_value) ''f_code'' = Inl (NullPyObjectPtr (PyObjectPtr no_value))
   \<and> \<not> is_null (PyObjectPtr example_f)
   \<and> field (PyObjectPtr example_f) ''f_code'' = Inr example_code"
  using field_raises_iff_null [of "PyObjectPtr no_value" "''f_code''"]
    field_raises_iff_null [of "PyObjectPtr example_f" "''f_code''"]
  by (simp add: example_f_def)

text \<open>
  C9. \<^verbatim>\<open>gist_extr(s)\<close> is the part of \<open>s\<close> strictly between its first and its last
  double quote (empty when the two are the same character). When \<open>s\<close> has no double
  quote it is \<^verbatim>\<open>s[0:-1]\<close>, that is \<open>s\<close> without its last character, which for a
  non-empty \<open>s\<close> is not \<open>s\<close>.
\<close>

theorem gist_extr_between_quotes:
  "(CHR 0x22 \<notin> set a \<and> CHR 0x22 \<notin> set b \<longrightarrow>
      gist_extr (a @ [CHR 0x22] @ m @ [CHR 0x22] @ b) = m)
   \<and> (CHR 0x22 \<notin> set a \<and> CHR 0x22 \<notin> set b \<longrightarrow> gist_extr (a @ [CHR 0x22] @ b) = [])
   \<and> (CHR 0x22 \<notin> set s \<longrightarrow>
        gist_extr s = py_slice s 0 (-1) \<and> gist_extr s = butlast s
        \<and> (s \<noteq> [] \<longrightarrow> gist_extr s \<noteq> s))"
proof (intro conjI impI)
  assume "CHR 0x22 \<notin> set s"
  then show "gist_extr s = py_slice s 0 (-1)"
    by (rule gist_extr_no_quote)
  then show eq: "gist_extr s = butlast s"
    by (simp add: py_slice_butlast)
  assume "s \<noteq> []"
  with eq have "length (gist_extr s) < length s"
    by simp
  then show "gist_extr s \<noteq> s"
    by (metis less_irrefl)
qed (use gist_extr_two_quotes [of a b m] gist_extr_one_quote [of a b] in simp_all)

theorem gist_extr_between_quotes_witness:
  "gist_extr [CHR ''$'', CHR ''1'', CHR '' '', CHR 0x22, CHR ''a'', CHR 0x22, CHR ''b'', CHR 0x22] = [CHR ''a'', CHR 0x22, CHR ''b'']
   \<and> gist_extr [CHR ''a'', CHR 0x22, CHR ''b''] = []
   \<and> gist_extr ''abc'' = ''ab''
   \<and> gist_extr ''abc'' \<noteq> ''abc''"
  using gist_extr_between_quotes
    [of "''$1 ''" "[]" "[CHR ''a'', CHR 0x22, CHR ''b'']" "''abc''"]
    gist_extr_between_quotes [of "''a''" "''b''" "[]" "''abc''"]
  by simp

text \<open>
  C10. Every line \<^verbatim>\<open>py3bt\<close> prints is the line of an interpreter frame the loop ranges over,
  and in it the file name, the function name and the line number are each the value the
  host returned when that value is true, and the single character \<^verbatim>\<open>.\<close> when it is
  \<^verbatim>\<open>None\<close> or empty.
\<close>

theorem py3bt_falsy_as_dot:
  assumes "thr = target_thread debugger thread w"
    and "w' = snd (py3bt debugger command result dict thread w)"
  shows "\<forall>l\<in>set (printed w w').
           \<exists>j a b c. j < GetNumFrames thr - 1 \<and> is_evalframeex (frame_at thr j)
             \<and> l = ''frame #'' @ str_nat (GetFrameID (frame_at thr j)) @ '': ''
                     @ a @ '' - '' @ b @ '':'' @ c
             \<and> (if truthy (host_filename (frame_at thr j))
                 then host_filename (frame_at thr j) = Some a else a = ''.'')
             \<and> (if truthy (host_name (frame_at thr j))
                 then host_name (frame_at thr j) = Some b else b = ''.'')
             \<and> (if truthy (host_lineno (frame_at thr j))
                 then host_lineno (frame_at thr j) = Some c else c = ''.'')"
proof
  fix l
  assume "l \<in> set (printed w w')"
  then obtain j where j: "j \<in> set (shown thr (visited thr))"
    and l: "l = frame_line (frame_at thr j)"
    by (auto simp: printed_def assms run_stdout)
  let ?fr = "frame_at thr j"
  have "j < GetNumFrames thr - 1"
    using j by (rule shown_visited)
  moreover have "is_evalframeex ?fr"
    using j by (rule shown_eval)
  moreover have "l = ''frame #'' @ str_nat (GetFrameID ?fr) @ '': ''
                     @ or_dot (host_filename ?fr) @ '' - '' @ or_dot (host_name ?fr)
                     @ '':'' @ or_dot (host_lineno ?fr)"
    by (simp add: l frame_line_def spec_line_def)
  ultimately show "\<exists>j a b c. j < GetNumFrames thr - 1 \<and> is_evalframeex (frame_at thr j)
             \<and> l = ''frame #'' @ str_nat (GetFrameID (frame_at thr j)) @ '': ''
                     @ a @ '' - '' @ b @ '':'' @ c
             \<and> (if truthy (host_filename (frame_at thr j))
                 then host_filename (frame_at thr j) = Some a else a = ''.'')
             \<and> (if truthy (host_name (frame_at thr j))
                 then host_name (frame_at thr j) = Some b else b = ''.'')
             \<and> (if truthy (host_lineno (frame_at thr j))
                 then host_lineno (frame_at thr j) = Some c else c = ''.'')"
    using or_dot_truthy [of "host_filename ?fr"] or_dot_truthy [of "host_name ?fr"]
      or_dot_truthy [of "host_lineno ?fr"]
    by blast
qed

theorem py3bt_falsy_as_dot_witness:
  "printed example_world (snd (py3bt None () () () None example_world))
     = [''frame #1: a.py - .:7'', ''frame #2: a.py - .:7'']
   \<and> host_name (frame_at example_thread 1) = None
   \<and> (\<exists>j a b c. j < GetNumFrames example_thread - 1
         \<and> is_evalframeex (frame_at example_thread j)
         \<and> ''frame #1: a.py - .:7''
             = ''frame #'' @ str_nat (GetFrameID (frame_at example_thread j)) @ '': ''
                 @ a @ '' - '' @ b @ '':'' @ c
         \<and> (if truthy (host_filename (frame_at example_thread j))
             then host_filename (frame_at example_thread j) = Some a else a = ''.'')
         \<and> (if truthy (host_name (frame_at example_thread j))
             then host_name (frame_at example_thread j) = Some b else b = ''.'')
         \<and> (if truthy (host_lineno (frame_at example_thread j))
             then host_lineno (frame_at example_thread j) = Some c else c = ''.''))"
proof -
  have p: "printed example_world (snd (py3bt None () () () None example_world))
             = [''frame #1: a.py - .:7'', ''frame #2: a.py - .:7'']"
    by (simp add: printed_def run_defs example_defs)
  have h: "host_name (frame_at example_thread 1) = None"
    by (simp add: host_name_def frame_f_code_def frame_f_def example_defs)
  note t = py3bt_falsy_as_dot [OF refl refl, where debugger = None and thread = None
      and w = example_world and command = "()" and result = "()" and dict = "()"]
  have "''frame #1: a.py - .:7''
          \<in> set (printed example_world (snd (py3bt None () () () None example_world)))"
    by (simp add: p)
  with t [unfolded example_target] p h show ?thesis
    by blast
qed

end
